theory Spec2Isabelle
  imports Main
begin

section \<open>The users table of \<open>main.py\<close>\<close>

text \<open>
  \<open>init_db\<close> creates one table, \<open>users\<close>, with the columns \<open>user_id INTEGER PRIMARY KEY\<close>,
  \<open>username TEXT\<close>, \<open>first_name TEXT\<close>, \<open>last_seen TIMESTAMP\<close> and \<open>is_blocked INTEGER\<close>.
  A row is a record. The program writes only the literals \<open>0\<close> and \<open>1\<close> into \<open>is_blocked\<close>
  and compares it only with them, so the column is a \<open>bool\<close> (\<open>1\<close> is \<open>True\<close>).
  \<open>username\<close> is Telegram's optional user name (\<open>None\<close> is SQL \<open>NULL\<close>); \<open>last_seen\<close> is
  the value of \<open>CURRENT_TIMESTAMP\<close>, passed to the model as the parameter \<open>now\<close>.

  The table is the list of its rows in the order of a table scan. \<open>user_id\<close> is the
  \<open>INTEGER PRIMARY KEY\<close>, which SQLite uses as the rowid, so a scan yields the rows by
  ascending \<open>user_id\<close>.
\<close>

record user_row =
  user_id :: int
  username :: "string option"
  first_name :: string
  last_seen :: nat
  is_blocked :: bool

type_synonym table = "user_row list"

definition init_db :: table where
  "init_db = []"

text \<open>Placing a new row at its rowid position.\<close>

fun insert_row :: "user_row \<Rightarrow> table \<Rightarrow> table" where
  "insert_row r [] = [r]"
| "insert_row r (x # xs) =
     (if user_id r < user_id x then r # x # xs else x # insert_row r xs)"

text \<open>
  \<open>INSERT OR REPLACE INTO users (...) VALUES (?, ?, ?, CURRENT_TIMESTAMP, 0)\<close>: the rows
  that hold the key are deleted, then the new row is inserted.
\<close>

definition add_or_update_user :: "nat \<Rightarrow> int \<Rightarrow> string option \<Rightarrow> string \<Rightarrow> table \<Rightarrow> table" where
  "add_or_update_user now uid uname fname t =
     insert_row
       \<lparr>user_id = uid, username = uname, first_name = fname, last_seen = now, is_blocked = False\<rparr>
       (filter (\<lambda>r. user_id r \<noteq> uid) t)"

text \<open>\<open>SELECT user_id FROM users WHERE is_blocked = 0\<close>, collected into a list.\<close>

definition get_active_users :: "table \<Rightarrow> int list" where
  "get_active_users t = map user_id (filter (\<lambda>r. \<not> is_blocked r) t)"

text \<open>\<open>UPDATE users SET is_blocked = 1 WHERE user_id = ?\<close>.\<close>

definition block_user :: "int \<Rightarrow> table \<Rightarrow> table" where
  "block_user uid t = map (\<lambda>r. if user_id r = uid then r\<lparr>is_blocked := True\<rparr> else r) t"

text \<open>
  \<open>DELETE FROM users WHERE is_blocked = 1\<close>; the function returns \<open>cur.rowcount\<close>, the
  number of rows the statement deleted. The model returns it with the new table.
\<close>

definition clean_blocked :: "table \<Rightarrow> int \<times> table" where
  "clean_blocked t =
     (int (length (filter is_blocked t)), filter (\<lambda>r. \<not> is_blocked r) t)"

text \<open>
  \<open>get_stats\<close>: two \<open>SELECT COUNT( * )\<close> statements and a subtraction of Python integers.
\<close>

definition get_stats :: "table \<Rightarrow> int \<times> int \<times> int" where
  "get_stats t =
     (let total' = int (length t);
          active = int (length (filter (\<lambda>r. \<not> is_blocked r) t));
          blocked = total' - active
      in (total', active, blocked))"

text \<open>A sequence of upserts to one identifier, each with its time, user name and first name.\<close>

fun upserts :: "int \<Rightarrow> (nat \<times> string option \<times> string) list \<Rightarrow> table \<Rightarrow> table" where
  "upserts uid [] t = t"
| "upserts uid ((now, uname, fname) # us) t =
     upserts uid us (add_or_update_user now uid uname fname t)"

text \<open>The primary-key constraint of the table: no two rows with one \<open>user_id\<close>.\<close>

definition primary_key :: "table \<Rightarrow> bool" where
  "primary_key t = distinct (map user_id t)"


section \<open>The transport\<close>

text \<open>
  The handlers call the Telegram client. A call returns or raises a \<open>TelegramError\<close>;
  \<open>Forbidden\<close> is the subclass raised when the recipient has blocked the bot or never
  started it, and \<open>except TelegramError\<close> catches it too.
\<close>

datatype tg_error = Forbidden | OtherTelegramError

datatype outcome = Sent | Raised tg_error

text \<open>
  The texts the program composes itself, with the values interpolated into them:
  the greeting of \<open>start\<close> (first name), the admin panel (total, active, blocked), the
  welcome after an approval (first name, chat title), the alert for a foreign button
  press, the prompt for the broadcast content, the report of a cleanup (rows deleted)
  and the summary of a broadcast (sent, failed).
\<close>

datatype body =
    Greeting string
  | AdminPanel int int int
  | Welcome string string
  | NotAllowed
  | BroadcastPrompt
  | Cleaned int
  | BroadcastDone int int

text \<open>
  The outbound calls: \<open>approve_chat_join_request(chat_id, user_id)\<close>; the four sends of a
  broadcast, \<open>send_photo\<close>, \<open>send_video\<close> and \<open>send_document\<close> with recipient, file
  identifier and caption, \<open>send_message\<close> with recipient and text; the welcome
  \<open>send_message\<close> with its keyboard; \<open>update.message.reply_text\<close>; \<open>query.answer()\<close>,
  \<open>query.answer(text, show_alert=True)\<close> and \<open>query.edit_message_text\<close>.
\<close>

datatype call =
    ApproveChatJoinRequest int int
  | SendPhoto int string string
  | SendVideo int string string
  | SendDocument int string string
  | SendMessage int string
  | SendWelcome int body
  | ReplyText body
  | Answer
  | AnswerAlert body
  | EditMessageText body

type_synonym transport = "call \<Rightarrow> outcome"

datatype log_entry =
    InfoBlockedOrNeverStarted int
  | ErrorApproving tg_error

text \<open>
  How a handler ends: it returns, or an exception leaves it. The exception is a
  \<open>TelegramError\<close> that an awaited call raised, or the \<open>AttributeError\<close> of an attribute
  read on \<open>None\<close> (\<open>update.effective_user.id\<close>, \<open>update.message.reply_text\<close>, \<open>msg.text\<close>).
\<close>

datatype status = Returned | Propagated tg_error | RaisedAttributeError


section \<open>Updates and the state of the process\<close>

record tg_user =
  tg_id :: int
  tg_username :: "string option"
  tg_first_name :: string

record chat =
  chat_id :: int
  title :: string

text \<open>
  The fields of \<open>update.message\<close> that \<open>broadcast\<close> reads: \<open>text\<close> and \<open>caption\<close> (optional
  strings), \<open>photo\<close> (the file identifiers of the sizes of a photo, empty when there is
  none), \<open>video\<close> and \<open>document\<close> (the file identifier, when present).
\<close>

record message =
  msg_text :: "string option"
  msg_caption :: "string option"
  msg_photo :: "string list"
  msg_video :: "string option"
  msg_document :: "string option"

text \<open>
  What a handler does besides writing the table and the log, in program order: the
  calls it awaits, and its assignments \<open>context.user_data["broadcast"] = v\<close> (with the
  user whose \<open>user_data\<close> it is).
\<close>

datatype effect = Awaited call | Assigned int bool

text \<open>
  The state: the table, the entry \<open>"broadcast"\<close> of \<open>context.user_data\<close> for each user
  (\<open>None\<close> where the key is not set), the effects so far, oldest first, and the log.
\<close>

record world =
  users :: table
  user_data :: "int \<Rightarrow> bool option"
  trace :: "effect list"
  log :: "log_entry list"

text \<open>The outbound calls made so far, oldest first.\<close>

fun awaited :: "effect \<Rightarrow> call option" where
  "awaited (Awaited c) = Some c"
| "awaited (Assigned i b) = None"

definition calls :: "world \<Rightarrow> call list" where
  "calls w = List.map_filter awaited (trace w)"

text \<open>An awaited call: it is made (recorded) and the transport decides its outcome.\<close>

definition await :: "transport \<Rightarrow> call \<Rightarrow> world \<Rightarrow> outcome \<times> world" where
  "await tr c w = (tr c, w\<lparr>trace := trace w @ [Awaited c]\<rparr>)"

text \<open>The assignment \<open>context.user_data["broadcast"] = b\<close> in an update of the user \<open>i\<close>.\<close>

definition assign :: "int \<Rightarrow> bool \<Rightarrow> world \<Rightarrow> world" where
  "assign i b w = w\<lparr>user_data := (user_data w)(i \<mapsto> b), trace := trace w @ [Assigned i b]\<rparr>"

text \<open>An awaited call outside every \<open>try\<close>, as the last statement of a handler.\<close>

definition uncaught :: "outcome \<times> world \<Rightarrow> status \<times> world" where
  "uncaught ow = (case ow of (Sent, w) \<Rightarrow> (Returned, w) | (Raised e, w) \<Rightarrow> (Propagated e, w))"

text \<open>
  \<open>await update.message.reply_text(...)\<close> as the last statement of a handler.
  \<open>update.message\<close> is optional: it is \<open>None\<close> in an update that is an edited message or a
  channel post, and the attribute read on it then raises before any call is made.
\<close>

definition reply_text :: "transport \<Rightarrow> message option \<Rightarrow> body \<Rightarrow> world \<Rightarrow> status \<times> world" where
  "reply_text tr mo b w =
     (case mo of
        None \<Rightarrow> (RaisedAttributeError, w)
      | Some m \<Rightarrow> uncaught (await tr (ReplyText b) w))"


section \<open>The handlers\<close>

definition show_admin_panel :: "transport \<Rightarrow> message option \<Rightarrow> world \<Rightarrow> status \<times> world" where
  "show_admin_panel tr mo w =
     (case get_stats (users w) of
        (total', active, blocked) \<Rightarrow> reply_text tr mo (AdminPanel total' active blocked) w)"

definition start ::
  "int \<Rightarrow> transport \<Rightarrow> nat \<Rightarrow> tg_user \<Rightarrow> message option \<Rightarrow> world \<Rightarrow> status \<times> world" where
  "start admin tr now u mo w =
     (let w1 = w\<lparr>users := add_or_update_user now (tg_id u) (tg_username u) (tg_first_name u) (users w)\<rparr>
      in if tg_id u = admin then show_admin_panel tr mo w1
         else reply_text tr mo (Greeting (tg_first_name u)) w1)"

definition handle_join_request :: "transport \<Rightarrow> nat \<Rightarrow> tg_user \<Rightarrow> chat \<Rightarrow> world \<Rightarrow> status \<times> world" where
  "handle_join_request tr now u c w =
     (case await tr (ApproveChatJoinRequest (chat_id c) (tg_id u)) w of
        (Raised e, w1) \<Rightarrow> (Returned, w1\<lparr>log := log w1 @ [ErrorApproving e]\<rparr>)
      | (Sent, w1) \<Rightarrow>
          (let w2 = w1\<lparr>users := add_or_update_user now (tg_id u) (tg_username u) (tg_first_name u) (users w1)\<rparr>
           in case await tr (SendWelcome (tg_id u) (Welcome (tg_first_name u) (title c))) w2 of
                (Sent, w3) \<Rightarrow> (Returned, w3)
              | (Raised Forbidden, w3) \<Rightarrow>
                  (Returned, w3\<lparr>log := log w3 @ [InfoBlockedOrNeverStarted (tg_id u)]\<rparr>)
              | (Raised OtherTelegramError, w3) \<Rightarrow>
                  (Returned, w3\<lparr>log := log w3 @ [ErrorApproving OtherTelegramError]\<rparr>)))"

definition admin_buttons :: "int \<Rightarrow> transport \<Rightarrow> int \<Rightarrow> string \<Rightarrow> world \<Rightarrow> status \<times> world" where
  "admin_buttons admin tr sender_id data w =
     (case await tr Answer w of
        (Raised e, w1) \<Rightarrow> (Propagated e, w1)
      | (Sent, w1) \<Rightarrow>
          if sender_id \<noteq> admin then uncaught (await tr (AnswerAlert NotAllowed) w1)
          else if data = ''broadcast'' then
            (case await tr (EditMessageText BroadcastPrompt) w1 of
               (Raised e, w2) \<Rightarrow> (Propagated e, w2)
             | (Sent, w2) \<Rightarrow> (Returned, assign sender_id True w2))
          else if data = ''clean_db'' then
            (case clean_blocked (users w1) of
               (deleted, t) \<Rightarrow> uncaught (await tr (EditMessageText (Cleaned deleted)) (w1\<lparr>users := t\<rparr>)))
          else (Returned, w1))"

text \<open>Python's \<open>a or d\<close> on an optional string: \<open>None\<close> and the empty string are false.\<close>

fun or_else :: "string option \<Rightarrow> string \<Rightarrow> string" where
  "or_else None d = d"
| "or_else (Some s) d = (if s = [] then d else s)"

text \<open>\<open>text = msg.text or msg.caption or ""\<close>.\<close>

definition broadcast_text :: "message \<Rightarrow> string" where
  "broadcast_text m = or_else (msg_text m) (or_else (msg_caption m) [])"

text \<open>
  The \<open>if\<close>/\<open>elif\<close> chain in the loop of \<open>broadcast\<close>: the call made for one recipient.
  \<open>msg.photo[-1]\<close> is the last size of the photo.
\<close>

definition send_to :: "message \<Rightarrow> string \<Rightarrow> int \<Rightarrow> call" where
  "send_to m txt recipient =
     (if msg_photo m \<noteq> [] then SendPhoto recipient (last (msg_photo m)) txt
      else case msg_video m of
             Some v \<Rightarrow> SendVideo recipient v txt
           | None \<Rightarrow>
               (case msg_document m of
                  Some d \<Rightarrow> SendDocument recipient d txt
                | None \<Rightarrow> SendMessage recipient txt))"

text \<open>
  The loop \<open>for user_id in users\<close> with its \<open>try\<close>: the state of the loop is the world
  and the two counters \<open>success\<close> and \<open>failed\<close>.
\<close>

fun broadcast_loop ::
  "transport \<Rightarrow> message \<Rightarrow> string \<Rightarrow> int list \<Rightarrow> world \<times> int \<times> int \<Rightarrow> world \<times> int \<times> int" where
  "broadcast_loop tr m txt [] s = s"
| "broadcast_loop tr m txt (u # us) (w, success, failed) =
     (case await tr (send_to m txt u) w of
        (Sent, w1) \<Rightarrow> broadcast_loop tr m txt us (w1, success + 1, failed)
      | (Raised Forbidden, w1) \<Rightarrow>
          broadcast_loop tr m txt us (w1\<lparr>users := block_user u (users w1)\<rparr>, success, failed + 1)
      | (Raised OtherTelegramError, w1) \<Rightarrow>
          broadcast_loop tr m txt us (w1, success, failed + 1))"

text \<open>
  \<open>broadcast\<close> reads \<open>update.effective_user.id\<close> first; \<open>update.effective_user\<close> is \<open>None\<close> in
  a channel post, and the read raises. It assigns the flag, and only then reads
  \<open>msg.text\<close> of \<open>msg = update.message\<close>, which raises when the update is an edited
  message.
\<close>

definition broadcast ::
  "int \<Rightarrow> transport \<Rightarrow> int option \<Rightarrow> message option \<Rightarrow> world \<Rightarrow> status \<times> world" where
  "broadcast admin tr effective_user mo w =
     (case effective_user of
        None \<Rightarrow> (RaisedAttributeError, w)
      | Some sender_id \<Rightarrow>
          if sender_id \<noteq> admin then (Returned, w)
          else if user_data w sender_id \<noteq> Some True then (Returned, w)
          else
            (let w1 = assign sender_id False w
             in case mo of
                  None \<Rightarrow> (RaisedAttributeError, w1)
                | Some m \<Rightarrow>
                    (let txt = broadcast_text m
                     in case broadcast_loop tr m txt (get_active_users (users w1)) (w1, 0, 0) of
                          (w2, success, failed) \<Rightarrow>
                            reply_text tr mo (BroadcastDone success failed) w2)))"

text \<open>
  The updates that \<open>main\<close> registers a handler for, each with the fields its handler
  reads, and the dispatch of an update to its handler. The handlers are registered in
  one group, in which the first handler that matches takes the update.
  \<^item> A \<open>/start\<close> command goes to \<open>start\<close>, with its sender and \<open>update.message\<close>; the
    command handler listens to messages and to edited messages, and \<open>update.message\<close>
    is \<open>None\<close> in an edited one.
  \<^item> A join request goes to \<open>handle_join_request\<close>, with the requester and the chat.
  \<^item> A callback query goes to \<open>admin_buttons\<close>, with its sender and \<open>query.data\<close>.
  \<^item> Every other update that \<open>filters.ALL\<close> accepts goes to \<open>broadcast\<close>, with
    \<open>update.effective_user\<close> and \<open>update.message\<close>: a message has both, an edited message
    has a user and no \<open>update.message\<close>, a channel post has neither.
\<close>

datatype event =
    StartCommand tg_user "message option"
  | JoinRequest tg_user chat
  | ButtonPress int string
  | MessageUpdate "int option" "message option"

fun sender :: "event \<Rightarrow> int option" where
  "sender (StartCommand u mo) = Some (tg_id u)"
| "sender (JoinRequest u c) = Some (tg_id u)"
| "sender (ButtonPress i d) = Some i"
| "sender (MessageUpdate eu mo) = eu"

fun handle :: "int \<Rightarrow> transport \<Rightarrow> nat \<Rightarrow> event \<Rightarrow> world \<Rightarrow> status \<times> world" where
  "handle admin tr now (StartCommand u mo) w = start admin tr now u mo w"
| "handle admin tr now (JoinRequest u c) w = handle_join_request tr now u c w"
| "handle admin tr now (ButtonPress i d) w = admin_buttons admin tr i d w"
| "handle admin tr now (MessageUpdate eu mo) w = broadcast admin tr eu mo w"



section \<open>Notions used in the statements\<close>

text \<open>
  The table after the rows of the identifiers in \<open>B\<close> had \<open>is_blocked\<close> set: what the
  calls \<open>block_user u\<close> for the \<open>u\<close> in \<open>B\<close> make of a table.
\<close>

definition mark_blocked :: "int list \<Rightarrow> table \<Rightarrow> table" where
  "mark_blocked B t = map (\<lambda>r. if user_id r \<in> set B then r\<lparr>is_blocked := True\<rparr> else r) t"

text \<open>
  The active users of a table whose delivery of the message \<open>m\<close> has the outcome \<open>out\<close>
  under the transport \<open>tr\<close>.
\<close>

definition recipients_with :: "transport \<Rightarrow> message \<Rightarrow> outcome \<Rightarrow> table \<Rightarrow> int list" where
  "recipients_with tr m out t =
     filter (\<lambda>u. tr (send_to m (broadcast_text m) u) = out) (get_active_users t)"

text \<open>
  The summary of a pass: the reply that counts as sent the deliveries that returned and
  as failed those that raised \<open>Forbidden\<close> or another error.
\<close>

definition pass_summary :: "transport \<Rightarrow> message \<Rightarrow> table \<Rightarrow> call" where
  "pass_summary tr m t =
     ReplyText (BroadcastDone
       (int (length (recipients_with tr m Sent t)))
       (int (length (recipients_with tr m (Raised Forbidden) t))
        + int (length (recipients_with tr m (Raised OtherTelegramError) t))))"

text \<open>The recipient of a call that is one of the four sends of the broadcast loop.\<close>

fun delivery_to :: "call \<Rightarrow> int option" where
  "delivery_to (SendPhoto u f c) = Some u"
| "delivery_to (SendVideo u f c) = Some u"
| "delivery_to (SendDocument u f c) = Some u"
| "delivery_to (SendMessage u c) = Some u"
| "delivery_to (ApproveChatJoinRequest c u) = None"
| "delivery_to (SendWelcome u b) = None"
| "delivery_to (ReplyText b) = None"
| "delivery_to Answer = None"
| "delivery_to (AnswerAlert b) = None"
| "delivery_to (EditMessageText b) = None"



text \<open>
  The delivery as the specification words it. The captured content is a tagged
  variant; the candidates are listed by precedence (photo, video, document, plain
  text) and the first one present wins. The text that goes with it, as caption or as
  body, is the text of the message when it has one, else its caption when it has one,
  else the empty string.
\<close>

datatype content = Photo string | Video string | Document string | PlainText

definition spec_candidates :: "message \<Rightarrow> content option list" where
  "spec_candidates m =
     [if msg_photo m = [] then None else Some (Photo (last (msg_photo m))),
      map_option Video (msg_video m),
      map_option Document (msg_document m),
      Some PlainText]"

fun first_match :: "content option list \<Rightarrow> content" where
  "first_match [] = PlainText"
| "first_match (Some c # cs) = c"
| "first_match (None # cs) = first_match cs"

definition spec_richest :: "message \<Rightarrow> content" where
  "spec_richest m = first_match (spec_candidates m)"

definition spec_text :: "message \<Rightarrow> string" where
  "spec_text m =
     (case msg_text m of
        Some (x # xs) \<Rightarrow> x # xs
      | _ \<Rightarrow> (case msg_caption m of Some (y # ys) \<Rightarrow> y # ys | _ \<Rightarrow> []))"

fun spec_delivery :: "content \<Rightarrow> string \<Rightarrow> int \<Rightarrow> call" where
  "spec_delivery (Photo f) txt recipient = SendPhoto recipient f txt"
| "spec_delivery (Video f) txt recipient = SendVideo recipient f txt"
| "spec_delivery (Document f) txt recipient = SendDocument recipient f txt"
| "spec_delivery PlainText txt recipient = SendMessage recipient txt"


section \<open>Concrete inputs\<close>

text \<open>
  An administrator with the identifier 99; a table with rows for the users 1 and 2
  (active) and 3 (blocked), and one with three blocked and two active rows; a world
  whose administrator has pressed the broadcast button; a text message, a message
  with a caption, a photo in two sizes, a video and a document, and a video with both
  a text and a caption; transports under which every call returns, every call fails,
  and exactly the sends to user 2 raise \<open>Forbidden\<close>.
\<close>

definition ex_admin :: int where
  "ex_admin = 99"

definition ex_row :: "int \<Rightarrow> bool \<Rightarrow> user_row" where
  "ex_row i b = \<lparr>user_id = i, username = None, first_name = ''u'', last_seen = 0, is_blocked = b\<rparr>"

definition ex_table :: table where
  "ex_table = [ex_row 1 False, ex_row 2 False, ex_row 3 True]"

definition ex_table5 :: table where
  "ex_table5 = [ex_row 1 True, ex_row 2 False, ex_row 3 True, ex_row 4 False, ex_row 5 True]"

definition ex_idle :: world where
  "ex_idle = \<lparr>users = ex_table, user_data = (\<lambda>i. None), trace = [], log = []\<rparr>"

definition ex_awaiting :: world where
  "ex_awaiting = \<lparr>users = ex_table, user_data = (\<lambda>i. if i = 99 then Some True else None),
     trace = [], log = []\<rparr>"

definition ex_hello :: message where
  "ex_hello = \<lparr>msg_text = Some ''Hello'', msg_caption = None, msg_photo = [],
     msg_video = None, msg_document = None\<rparr>"

definition ex_media :: message where
  "ex_media = \<lparr>msg_text = None, msg_caption = Some ''cap'', msg_photo = [''p1'', ''p2''],
     msg_video = Some ''v'', msg_document = Some ''d''\<rparr>"

definition ex_both :: message where
  "ex_both = \<lparr>msg_text = Some ''txt'', msg_caption = Some ''cap'', msg_photo = [],
     msg_video = Some ''v'', msg_document = None\<rparr>"

definition ex_user :: "int \<Rightarrow> tg_user" where
  "ex_user i = \<lparr>tg_id = i, tg_username = None, tg_first_name = ''u''\<rparr>"

definition ex_chat :: chat where
  "ex_chat = \<lparr>chat_id = 500, title = ''c''\<rparr>"

definition all_sent :: transport where
  "all_sent c = Sent"

definition all_fail :: transport where
  "all_fail c = Raised OtherTelegramError"

definition user2_blocked :: transport where
  "user2_blocked c = (if delivery_to c = Some 2 then Raised Forbidden else Sent)"



section \<open>The store operations\<close>

lemma set_insert_row: "set (insert_row r t) = insert r (set t)"
  by (induction t) auto

lemma filter_insert_row_only:
  "P r \<Longrightarrow> filter P t = [] \<Longrightarrow> filter P (insert_row r t) = [r]"
  by (induction t) (auto split: if_splits)

lemma filter_insert_row_other:
  "\<not> P r \<Longrightarrow> filter P (insert_row r t) = filter P t"
  by (induction t) auto

lemma add_or_update_user_key:
  "filter (\<lambda>r. user_id r = uid) (add_or_update_user now uid un fn t) =
     [\<lparr>user_id = uid, username = un, first_name = fn, last_seen = now, is_blocked = False\<rparr>]"
  unfolding add_or_update_user_def
  by (rule filter_insert_row_only) (simp_all add: filter_empty_conv)

lemma add_or_update_user_others:
  "filter (\<lambda>r. user_id r \<noteq> uid) (add_or_update_user now uid un fn t) =
     filter (\<lambda>r. user_id r \<noteq> uid) t"
  unfolding add_or_update_user_def
  by (simp add: filter_insert_row_other)

text \<open>
  C4. After a sequence of upserts to one user identifier that ends with the upsert of
  \<open>uname\<close> and \<open>fname\<close> at time \<open>now\<close>, whatever the table held before and whatever the
  earlier upserts of the sequence wrote, the table holds exactly one row for that
  identifier: it carries the user name and the first name of this last upsert, and
  its \<open>is_blocked\<close> is false. The rows of the other identifiers are as they were.
\<close>

theorem upserts_last_wins:
  "filter (\<lambda>r. user_id r = uid) (upserts uid (us @ [(now, uname, fname)]) t) =
     [\<lparr>user_id = uid, username = uname, first_name = fname, last_seen = now, is_blocked = False\<rparr>]
   \<and> filter (\<lambda>r. user_id r \<noteq> uid) (upserts uid (us @ [(now, uname, fname)]) t) =
     filter (\<lambda>r. user_id r \<noteq> uid) t"
proof (induction us arbitrary: t)
  case Nil
  show ?case
    by (simp add: add_or_update_user_key add_or_update_user_others)
next
  case (Cons a us)
  obtain n1 u1 f1 where a: "a = (n1, u1, f1)"
    by (cases a) auto
  show ?case
    using Cons.IH [of "add_or_update_user n1 uid u1 f1 t"]
    by (simp add: a add_or_update_user_others)
qed

theorem upserts_last_wins_witness:
  "filter (\<lambda>r. user_id r = 3)
     (upserts 3 ([(1, None, ''x''), (2, Some ''al'', ''Al'')] @ [(7, Some ''bob'', ''Bob'')]) ex_table) =
     [\<lparr>user_id = 3, username = Some ''bob'', first_name = ''Bob'', last_seen = 7, is_blocked = False\<rparr>]
   \<and> is_blocked (ex_row 3 True) \<and> ex_row 3 True \<in> set ex_table"
  using upserts_last_wins [of 3 "[(1, None, ''x''), (2, Some ''al'', ''Al'')]" 7 "Some ''bob''" "''Bob''" ex_table]
  by (simp add: ex_table_def ex_row_def)


text \<open>
  C5. \<open>clean_blocked\<close> keeps exactly the rows that are not blocked, each as it was and in
  its place, so the rows it deletes are exactly the blocked ones; the number it
  returns is the number of blocked rows, which is the number of rows that are gone.
\<close>

theorem clean_blocked_exact:
  "set (snd (clean_blocked t)) = {r \<in> set t. \<not> is_blocked r}
   \<and> filter (\<lambda>r. \<not> is_blocked r) (snd (clean_blocked t)) = filter (\<lambda>r. \<not> is_blocked r) t
   \<and> filter is_blocked (snd (clean_blocked t)) = []
   \<and> fst (clean_blocked t) = int (length (filter is_blocked t))
   \<and> int (length t) = int (length (snd (clean_blocked t))) + fst (clean_blocked t)"
  using sum_length_filter_compl [of is_blocked t]
  by (simp add: clean_blocked_def)

theorem clean_blocked_exact_witness:
  "fst (clean_blocked ex_table5) = 3
   \<and> snd (clean_blocked ex_table5) = [ex_row 2 False, ex_row 4 False]
   \<and> get_stats (snd (clean_blocked ex_table5)) = (2, 2, 0)"
  using clean_blocked_exact [of ex_table5]
  by (simp add: clean_blocked_def get_stats_def ex_table5_def ex_row_def)

text \<open>
  C6. The triple of \<open>get_stats\<close> is the number of rows, the number of rows that are not
  blocked and the number of rows that are blocked, and the first is the sum of the
  other two.
\<close>

theorem get_stats_sum:
  "(case get_stats t of (total', active, blocked) \<Rightarrow>
      total' = active + blocked
      \<and> total' = int (length t)
      \<and> active = int (length (filter (\<lambda>r. \<not> is_blocked r) t))
      \<and> blocked = int (length (filter is_blocked t)))"
  using sum_length_filter_compl [of is_blocked t]
  by (simp add: get_stats_def Let_def)

theorem get_stats_sum_witness:
  "get_stats ex_table5 = (5, 2, 3) \<and> (5::int) = 2 + 3"
  using get_stats_sum [of ex_table5]
  by (simp add: get_stats_def ex_table5_def ex_row_def)

text \<open>
  The primary key: the empty table has it and every statement of the program keeps
  it, so the identifiers that \<open>get_active_users\<close> returns are pairwise distinct.
\<close>

lemma primary_key_init_db: "primary_key init_db"
  by (simp add: primary_key_def init_db_def)

lemma primary_key_insert_row:
  "primary_key t \<Longrightarrow> user_id r \<notin> user_id ` set t \<Longrightarrow> primary_key (insert_row r t)"
  unfolding primary_key_def
  by (induction t) (auto simp: set_insert_row)

lemma primary_key_add_or_update_user:
  "primary_key t \<Longrightarrow> primary_key (add_or_update_user now i un fn t)"
  unfolding add_or_update_user_def
  by (rule primary_key_insert_row) (auto simp: primary_key_def distinct_map_filter)

lemma user_id_block_user: "map user_id (block_user u t) = map user_id t"
  by (induction t) (simp_all add: block_user_def)

lemma primary_key_block_user: "primary_key t \<Longrightarrow> primary_key (block_user u t)"
  by (simp add: primary_key_def user_id_block_user)

lemma primary_key_clean_blocked: "primary_key t \<Longrightarrow> primary_key (snd (clean_blocked t))"
  by (simp add: primary_key_def clean_blocked_def distinct_map_filter)

lemma distinct_get_active_users: "primary_key t \<Longrightarrow> distinct (get_active_users t)"
  by (simp add: primary_key_def get_active_users_def distinct_map_filter)



section \<open>The broadcast pass\<close>

lemma map_filter_append:
  "List.map_filter f (xs @ ys) = List.map_filter f xs @ List.map_filter f ys"
  by (simp add: List.map_filter_def)

lemma map_filter_awaited: "List.map_filter awaited (map (\<lambda>u. Awaited (f u)) us) = map f us"
  by (induction us) simp_all

lemma mark_blocked_Nil: "mark_blocked [] t = t"
  by (simp add: mark_blocked_def)

lemma user_id_mark_blocked: "map user_id (mark_blocked B t) = map user_id t"
  by (induction t) (simp_all add: mark_blocked_def)

lemma primary_key_mark_blocked: "primary_key t \<Longrightarrow> primary_key (mark_blocked B t)"
  by (simp add: primary_key_def user_id_mark_blocked)

lemma mark_blocked_Cons: "mark_blocked B (block_user u t) = mark_blocked (u # B) t"
  by (simp add: mark_blocked_def block_user_def)

text \<open>The loop in closed form: the rows blocked, the calls made and the two counters.\<close>

lemma broadcast_loop_eq:
  "broadcast_loop tr m txt us (w, s, f) =
     (w\<lparr>users := mark_blocked (filter (\<lambda>u. tr (send_to m txt u) = Raised Forbidden) us) (users w),
        trace := trace w @ map (\<lambda>u. Awaited (send_to m txt u)) us\<rparr>,
      s + int (length (filter (\<lambda>u. tr (send_to m txt u) = Sent) us)),
      f + int (length (filter (\<lambda>u. tr (send_to m txt u) \<noteq> Sent) us)))"
proof (induction us arbitrary: w s f)
  case Nil
  show ?case by (simp add: mark_blocked_Nil)
next
  case (Cons u us)
  show ?case
  proof (cases "tr (send_to m txt u)")
    case Sent
    then show ?thesis by (simp add: await_def Cons.IH)
  next
    case (Raised e)
    then show ?thesis
      by (cases e) (simp_all add: await_def Cons.IH mark_blocked_Cons)
  qed
qed

lemma not_sent_count:
  "length (filter (\<lambda>u. f u \<noteq> Sent) us) =
     length (filter (\<lambda>u. f u = Raised Forbidden) us)
     + length (filter (\<lambda>u. f u = Raised OtherTelegramError) us)"
proof (induction us)
  case Nil
  show ?case by simp
next
  case (Cons u us)
  show ?case
  proof (cases "f u")
    case Sent
    then show ?thesis using Cons.IH by simp
  next
    case (Raised e)
    then show ?thesis using Cons.IH by (cases e) simp_all
  qed
qed

lemma outcome_count:
  "length us =
     length (filter (\<lambda>u. f u = Sent) us)
     + length (filter (\<lambda>u. f u \<noteq> Sent) us)"
  using sum_length_filter_compl [of "\<lambda>u. f u = Sent" us] by simp

lemma snd_uncaught: "snd (uncaught (out, w)) = w"
  by (cases out) (simp_all add: uncaught_def)

lemma fst_uncaught:
  "fst (uncaught (out, w)) = (case out of Sent \<Rightarrow> Returned | Raised e \<Rightarrow> Propagated e)"
  by (cases out) (simp_all add: uncaught_def)

text \<open>
  A message of the administrator in the awaiting state: the handler in closed form.
\<close>

lemma broadcast_awaiting:
  assumes "user_data w admin = Some True"
  shows "broadcast admin tr (Some admin) (Some m) w =
     uncaught (tr (pass_summary tr m (users w)),
       w\<lparr>user_data := (user_data w)(admin \<mapsto> False),
         users := mark_blocked (recipients_with tr m (Raised Forbidden) (users w)) (users w),
         trace := trace w @ Assigned admin False
                   # map (\<lambda>u. Awaited (send_to m (broadcast_text m) u)) (get_active_users (users w))
                   @ [Awaited (pass_summary tr m (users w))]\<rparr>)"
  using assms
  by (simp add: broadcast_def Let_def broadcast_loop_eq await_def assign_def reply_text_def
      pass_summary_def recipients_with_def not_sent_count)

lemma broadcast_awaiting_users:
  assumes "user_data w admin = Some True"
  shows "users (snd (broadcast admin tr (Some admin) (Some m) w)) =
     mark_blocked (recipients_with tr m (Raised Forbidden) (users w)) (users w)"
  by (simp add: broadcast_awaiting [OF assms] snd_uncaught)


lemma broadcast_awaiting_trace:
  assumes "user_data w admin = Some True"
  shows "trace (snd (broadcast admin tr (Some admin) (Some m) w)) =
     trace w @ Assigned admin False
       # map (\<lambda>u. Awaited (send_to m (broadcast_text m) u)) (get_active_users (users w))
       @ [Awaited (pass_summary tr m (users w))]"
  by (simp add: broadcast_awaiting [OF assms] snd_uncaught)

lemma broadcast_awaiting_calls:
  assumes "user_data w admin = Some True"
  shows "calls (snd (broadcast admin tr (Some admin) (Some m) w)) =
     calls w @ map (send_to m (broadcast_text m)) (get_active_users (users w))
       @ [pass_summary tr m (users w)]"
  by (simp add: calls_def broadcast_awaiting_trace [OF assms] map_filter_append map_filter_awaited)


lemma newly_blocked_count:
  "length (filter is_blocked (mark_blocked (filter P (get_active_users t)) t)) =
     length (filter is_blocked t) + length (filter P (get_active_users t))"
proof -
  let ?B = "filter P (get_active_users t)"
  have in_B: "user_id r \<in> set (get_active_users t)" if "r \<in> set t" "\<not> is_blocked r" for r
    using that unfolding get_active_users_def by force
  have "length (filter is_blocked (mark_blocked ?B t)) =
          length (filter (\<lambda>r. is_blocked r \<or> user_id r \<in> set ?B) t)"
    unfolding mark_blocked_def filter_map length_map
    by (rule arg_cong [where f = length], rule filter_cong) (auto simp: comp_def)
  also have "\<dots> = length (filter (\<lambda>r. is_blocked r \<or> P (user_id r)) t)"
    by (rule arg_cong [where f = length], rule filter_cong) (auto simp: in_B)
  also have "\<dots> = length (filter is_blocked t)
                  + length (filter (\<lambda>r. \<not> is_blocked r \<and> P (user_id r)) t)"
    by (induction t) auto
  also have "length (filter (\<lambda>r. \<not> is_blocked r \<and> P (user_id r)) t) = length ?B"
    by (simp add: get_active_users_def filter_map comp_def conj_commute)
  finally show ?thesis .
qed

text \<open>
  C1. A message of the administrator in the awaiting state starts a pass over the
  active users. With \<open>forbidden\<close> the recipients whose delivery raises \<open>Forbidden\<close>,
  \<open>other\<close> those whose delivery raises another error and \<open>sent\<close> those whose delivery
  returns: the table after the pass is the table before it with \<open>is_blocked\<close> set in
  the rows of the \<open>forbidden\<close> recipients and every other row as it was (so a delivery
  that fails otherwise changes no row); the number of blocked rows has grown by
  exactly the number of \<open>forbidden\<close> recipients; and the summary reports the number of
  \<open>sent\<close> recipients as sent and the number of \<open>forbidden\<close> plus the number of \<open>other\<close>
  recipients as failed, which is at least the number of \<open>forbidden\<close> ones.
\<close>

theorem broadcast_blocks_forbidden:
  assumes "user_data w admin = Some True"
  shows
    "(let w' = snd (broadcast admin tr (Some admin) (Some m) w);
          sent = recipients_with tr m Sent (users w);
          forbidden = recipients_with tr m (Raised Forbidden) (users w);
          other = recipients_with tr m (Raised OtherTelegramError) (users w);
          failed = int (length forbidden) + int (length other)
      in users w' =
           map (\<lambda>r. if user_id r \<in> set forbidden then r\<lparr>is_blocked := True\<rparr> else r) (users w)
       \<and> length (filter is_blocked (users w')) =
           length (filter is_blocked (users w)) + length forbidden
       \<and> last (calls w') = ReplyText (BroadcastDone (int (length sent)) failed)
       \<and> int (length forbidden) \<le> failed)"
proof -
  let ?w' = "snd (broadcast admin tr (Some admin) (Some m) w)"
  let ?forbidden = "recipients_with tr m (Raised Forbidden) (users w)"
  have tab: "users ?w' = mark_blocked ?forbidden (users w)"
    by (rule broadcast_awaiting_users [OF assms])
  have cnt: "length (filter is_blocked (users ?w')) =
               length (filter is_blocked (users w)) + length ?forbidden"
    unfolding tab recipients_with_def by (rule newly_blocked_count)
  have summ: "last (calls ?w') = pass_summary tr m (users w)"
    by (simp add: broadcast_awaiting_calls [OF assms])
  show ?thesis
    using tab cnt summ by (simp add: Let_def mark_blocked_def pass_summary_def)
qed

theorem broadcast_blocks_forbidden_witness:
  "user_data ex_awaiting ex_admin = Some True
   \<and> users (snd (broadcast ex_admin user2_blocked (Some ex_admin) (Some ex_hello) ex_awaiting)) =
       [ex_row 1 False, ex_row 2 True, ex_row 3 True]
   \<and> last (calls (snd (broadcast ex_admin user2_blocked (Some ex_admin) (Some ex_hello) ex_awaiting))) =
       ReplyText (BroadcastDone 1 1)"
proof -
  have h: "user_data ex_awaiting ex_admin = Some True"
    by (simp add: ex_awaiting_def ex_admin_def)
  have sends: "send_to ex_hello (broadcast_text ex_hello) u = SendMessage u ''Hello''" for u
    by (simp add: send_to_def broadcast_text_def ex_hello_def)
  have act: "get_active_users (users ex_awaiting) = [1, 2]"
    by (simp add: get_active_users_def ex_awaiting_def ex_table_def ex_row_def)
  show ?thesis
    using h broadcast_blocks_forbidden [OF h, of user2_blocked ex_hello]
    by (simp add: Let_def recipients_with_def sends act user2_blocked_def)
       (simp add: ex_awaiting_def ex_table_def ex_row_def)
qed

lemma delivery_to_send_to: "delivery_to (send_to m txt u) = Some u"
  by (simp add: send_to_def split: option.splits)

text \<open>
  C10. In a pass, the calls made are one delivery for each user identifier that
  \<open>get_active_users\<close> returned at the start of the pass, in that order, followed by the
  summary; the recipients of the deliveries are exactly the fetched identifiers. The
  summary counts as sent the deliveries that returned and as failed the deliveries
  that did not, and the two numbers add up to the number of fetched identifiers.
\<close>

theorem broadcast_one_attempt_each:
  assumes "user_data w admin = Some True"
  shows
    "(let w' = snd (broadcast admin tr (Some admin) (Some m) w);
          fetched = get_active_users (users w);
          deliver = send_to m (broadcast_text m);
          succeeded = int (length (filter (\<lambda>u. tr (deliver u) = Sent) fetched));
          failed = int (length (filter (\<lambda>u. tr (deliver u) \<noteq> Sent) fetched))
      in calls w' = calls w @ map deliver fetched @ [ReplyText (BroadcastDone succeeded failed)]
       \<and> List.map_filter delivery_to (drop (length (calls w)) (calls w')) = fetched
       \<and> succeeded + failed = int (length fetched))"
proof -
  let ?w' = "snd (broadcast admin tr (Some admin) (Some m) w)"
  let ?fetched = "get_active_users (users w)"
  let ?deliver = "send_to m (broadcast_text m)"
  have rec: "List.map_filter delivery_to (map ?deliver us) = us" for us
    by (induction us) (simp_all add: delivery_to_send_to)
  have cs: "calls ?w' = calls w @ map ?deliver ?fetched @ [pass_summary tr m (users w)]"
    by (rule broadcast_awaiting_calls [OF assms])
  have summ: "pass_summary tr m (users w) =
      ReplyText (BroadcastDone
        (int (length (filter (\<lambda>u. tr (?deliver u) = Sent) ?fetched)))
        (int (length (filter (\<lambda>u. tr (?deliver u) \<noteq> Sent) ?fetched))))"
    by (simp add: pass_summary_def recipients_with_def not_sent_count)
  have dl: "List.map_filter delivery_to (drop (length (calls w)) (calls ?w')) = ?fetched"
    using rec [of ?fetched] by (simp add: cs summ List.map_filter_def)
  show ?thesis
    using cs dl outcome_count [of ?fetched "\<lambda>u. tr (?deliver u)"]
    by (simp add: Let_def summ)
qed

theorem broadcast_one_attempt_each_witness:
  "user_data ex_awaiting ex_admin = Some True
   \<and> calls (snd (broadcast ex_admin user2_blocked (Some ex_admin) (Some ex_hello) ex_awaiting)) =
       [SendMessage 1 ''Hello'', SendMessage 2 ''Hello'', ReplyText (BroadcastDone 1 1)]"
proof -
  have h: "user_data ex_awaiting ex_admin = Some True"
    by (simp add: ex_awaiting_def ex_admin_def)
  have sends: "send_to ex_hello (broadcast_text ex_hello) u = SendMessage u ''Hello''" for u
    by (simp add: send_to_def broadcast_text_def ex_hello_def)
  have act: "get_active_users (users ex_awaiting) = [1, 2]"
    by (simp add: get_active_users_def ex_awaiting_def ex_table_def ex_row_def)
  have none: "calls ex_awaiting = []"
    by (simp add: calls_def ex_awaiting_def)
  show ?thesis
    using h broadcast_one_attempt_each [OF h, of user2_blocked ex_hello]
    by (simp add: Let_def sends act none user2_blocked_def)
qed

lemma send_to_refines: "send_to m txt u = spec_delivery (spec_richest m) txt u"
  by (simp add: send_to_def spec_richest_def spec_candidates_def split: option.splits)

lemma broadcast_text_refines: "broadcast_text m = spec_text m"
  by (simp add: broadcast_text_def spec_text_def split: option.splits list.splits)

text \<open>
  C2. In a pass, the call made for each recipient is the delivery as the specification
  words it: of photo, video, document and plain text the first that the captured
  message holds, sent with the text of the message when it has one, else with its
  caption when it has one, else with the empty string, as caption of the media or as
  body of the plain message. Content and text are functions of the message alone, so
  the choice is the same for every recipient of the pass. Spelled out on the fields
  of the message: a photo wins over a video, a video over a document, a document
  over plain text, and the text wins over the caption.
\<close>

theorem broadcast_media_precedence:
  assumes "user_data w admin = Some True"
  shows
    "butlast (drop (length (calls w)) (calls (snd (broadcast admin tr (Some admin) (Some m) w)))) =
       map (spec_delivery (spec_richest m) (spec_text m)) (get_active_users (users w))
     \<and> (msg_photo m \<noteq> [] \<longrightarrow> spec_richest m = Photo (last (msg_photo m)))
     \<and> (msg_photo m = [] \<and> msg_video m = Some v \<longrightarrow> spec_richest m = Video v)
     \<and> (msg_photo m = [] \<and> msg_video m = None \<and> msg_document m = Some d \<longrightarrow>
          spec_richest m = Document d)
     \<and> (msg_photo m = [] \<and> msg_video m = None \<and> msg_document m = None \<longrightarrow>
          spec_richest m = PlainText)
     \<and> (msg_text m = Some t \<and> t \<noteq> [] \<longrightarrow> spec_text m = t)
     \<and> ((msg_text m = None \<or> msg_text m = Some []) \<and> msg_caption m = Some c \<and> c \<noteq> [] \<longrightarrow>
          spec_text m = c)
     \<and> ((msg_text m = None \<or> msg_text m = Some [])
          \<and> (msg_caption m = None \<or> msg_caption m = Some []) \<longrightarrow> spec_text m = [])"
proof -
  have f: "send_to m (broadcast_text m) = spec_delivery (spec_richest m) (spec_text m)"
    by (rule ext) (simp add: send_to_refines broadcast_text_refines)
  have pass: "butlast (drop (length (calls w)) (calls (snd (broadcast admin tr (Some admin) (Some m) w)))) =
       map (spec_delivery (spec_richest m) (spec_text m)) (get_active_users (users w))"
    by (simp add: broadcast_awaiting_calls [OF assms] butlast_append f)
  have rich: "(msg_photo m \<noteq> [] \<longrightarrow> spec_richest m = Photo (last (msg_photo m)))
     \<and> (msg_photo m = [] \<and> msg_video m = Some v \<longrightarrow> spec_richest m = Video v)
     \<and> (msg_photo m = [] \<and> msg_video m = None \<and> msg_document m = Some d \<longrightarrow>
          spec_richest m = Document d)
     \<and> (msg_photo m = [] \<and> msg_video m = None \<and> msg_document m = None \<longrightarrow>
          spec_richest m = PlainText)"
    by (simp add: spec_richest_def spec_candidates_def)
  have cap: "(msg_text m = Some t \<and> t \<noteq> [] \<longrightarrow> spec_text m = t)
     \<and> ((msg_text m = None \<or> msg_text m = Some []) \<and> msg_caption m = Some c \<and> c \<noteq> [] \<longrightarrow>
          spec_text m = c)
     \<and> ((msg_text m = None \<or> msg_text m = Some [])
          \<and> (msg_caption m = None \<or> msg_caption m = Some []) \<longrightarrow> spec_text m = [])"
    by (auto simp: spec_text_def split: option.splits list.splits)
  show ?thesis
    using pass rich cap by simp
qed

theorem broadcast_media_precedence_witness:
  "user_data ex_awaiting ex_admin = Some True
   \<and> butlast (calls (snd (broadcast ex_admin all_sent (Some ex_admin) (Some ex_media) ex_awaiting))) =
       [SendPhoto 1 ''p2'' ''cap'', SendPhoto 2 ''p2'' ''cap'']
   \<and> butlast (calls (snd (broadcast ex_admin all_sent (Some ex_admin) (Some ex_both) ex_awaiting))) =
       [SendVideo 1 ''v'' ''txt'', SendVideo 2 ''v'' ''txt'']
   \<and> butlast (calls (snd (broadcast ex_admin all_sent (Some ex_admin)
         (Some (ex_media\<lparr>msg_caption := None, msg_photo := [], msg_video := None\<rparr>)) ex_awaiting))) =
       [SendDocument 1 ''d'' [], SendDocument 2 ''d'' []]
   \<and> butlast (calls (snd (broadcast ex_admin all_sent (Some ex_admin) (Some ex_hello) ex_awaiting))) =
       [SendMessage 1 ''Hello'', SendMessage 2 ''Hello'']"
proof -
  have h: "user_data ex_awaiting ex_admin = Some True"
    by (simp add: ex_awaiting_def ex_admin_def)
  have act: "get_active_users (users ex_awaiting) = [1, 2]"
    by (simp add: get_active_users_def ex_awaiting_def ex_table_def ex_row_def)
  have none: "calls ex_awaiting = []"
    by (simp add: calls_def ex_awaiting_def)
  let ?doc = "ex_media\<lparr>msg_caption := None, msg_photo := [], msg_video := None\<rparr>"
  have a: "msg_photo ex_media \<noteq> [] \<and> last (msg_photo ex_media) = ''p2''
      \<and> msg_text ex_media = None \<and> msg_caption ex_media = Some ''cap''"
    by (simp add: ex_media_def)
  have b: "msg_photo ex_both = [] \<and> msg_video ex_both = Some ''v'' \<and> msg_text ex_both = Some ''txt''"
    by (simp add: ex_both_def)
  have c: "msg_photo ?doc = [] \<and> msg_video ?doc = None \<and> msg_document ?doc = Some ''d''
      \<and> msg_text ?doc = None \<and> msg_caption ?doc = None"
    by (simp add: ex_media_def)
  have d: "msg_photo ex_hello = [] \<and> msg_video ex_hello = None \<and> msg_document ex_hello = None
      \<and> msg_text ex_hello = Some ''Hello''"
    by (simp add: ex_hello_def)
  show ?thesis
    using h a b c d
      broadcast_media_precedence [OF h, where tr = all_sent and m = ex_media and c = "''cap''"]
      broadcast_media_precedence [OF h, where tr = all_sent and m = ex_both and v = "''v''"
        and t = "''txt''"]
      broadcast_media_precedence [OF h, where tr = all_sent and m = ?doc and d = "''d''"]
      broadcast_media_precedence [OF h, where tr = all_sent and m = ex_hello and t = "''Hello''"]
    by (simp add: act none)
qed


section \<open>Properties of the handlers\<close>

lemma calls_await: "calls (snd (await tr c w)) = calls w @ [c]"
  by (simp add: calls_def await_def map_filter_append)

lemma reply_text_world:
  "snd (reply_text tr mo b w) =
     (case mo of None \<Rightarrow> w | Some m \<Rightarrow> w\<lparr>trace := trace w @ [Awaited (ReplyText b)]\<rparr>)"
  by (simp add: reply_text_def await_def snd_uncaught split: option.splits)

lemma reply_text_status:
  "fst (reply_text tr mo b w) =
     (case mo of
        None \<Rightarrow> RaisedAttributeError
      | Some m \<Rightarrow> (case tr (ReplyText b) of Sent \<Rightarrow> Returned | Raised e \<Rightarrow> Propagated e))"
  by (simp add: reply_text_def await_def fst_uncaught split: option.splits)

lemma start_users:
  "users (snd (start admin tr now u mo w)) =
     add_or_update_user now (tg_id u) (tg_username u) (tg_first_name u) (users w)"
  by (simp add: start_def show_admin_panel_def Let_def reply_text_world split: prod.splits option.splits)





lemma join_users:
  "users (snd (handle_join_request tr now u c w)) =
     (if tr (ApproveChatJoinRequest (chat_id c) (tg_id u)) = Sent
      then add_or_update_user now (tg_id u) (tg_username u) (tg_first_name u) (users w)
      else users w)"
  by (simp add: handle_join_request_def await_def Let_def split: outcome.splits tg_error.splits)



lemma buttons_foreign:
  "i \<noteq> admin \<Longrightarrow> snd (admin_buttons admin tr i d w) =
     w\<lparr>trace := trace w @ Awaited Answer
         # (if tr Answer = Sent then [Awaited (AnswerAlert NotAllowed)] else [])\<rparr>"
  by (simp add: admin_buttons_def await_def snd_uncaught split: outcome.splits)

lemma buttons_users:
  "users (snd (admin_buttons admin tr i d w)) =
     (if tr Answer = Sent \<and> i = admin \<and> d \<noteq> ''broadcast'' \<and> d = ''clean_db''
      then snd (clean_blocked (users w)) else users w)"
  by (simp add: admin_buttons_def await_def assign_def snd_uncaught
      split: outcome.splits prod.splits)




text \<open>
  An update that reaches \<open>broadcast\<close> and is not one of the administrator in the
  awaiting state changes nothing; the handler returns, or raises at its first line
  when the update has no user.
\<close>

lemma broadcast_idle:
  "eu \<noteq> Some admin \<or> user_data w admin \<noteq> Some True \<Longrightarrow>
     broadcast admin tr eu mo w = (if eu = None then RaisedAttributeError else Returned, w)"
  by (cases eu) (auto simp: broadcast_def)

text \<open>
  An edited message of the administrator in the awaiting state: the flag is cleared,
  then \<open>msg.text\<close> raises on \<open>msg = None\<close>; nothing is delivered.
\<close>

lemma broadcast_edited:
  "user_data w admin = Some True \<Longrightarrow>
     broadcast admin tr (Some admin) None w = (RaisedAttributeError, assign admin False w)"
  by (simp add: broadcast_def Let_def)

lemma broadcast_users_cases:
  "users (snd (broadcast admin tr eu mo w)) = users w
   \<or> (\<exists>m. eu = Some admin \<and> mo = Some m \<and> user_data w admin = Some True
        \<and> users (snd (broadcast admin tr eu mo w)) =
            mark_blocked (recipients_with tr m (Raised Forbidden) (users w)) (users w))"
proof (cases "eu = Some admin \<and> user_data w admin = Some True")
  case False
  then show ?thesis by (simp add: broadcast_idle)
next
  case True
  then have t: "user_data w admin = Some True" and i: "eu = Some admin" by auto
  show ?thesis
  proof (cases mo)
    case None
    then show ?thesis by (simp add: i broadcast_edited [OF t] assign_def)
  next
    case (Some m)
    then show ?thesis using t by (simp add: i broadcast_awaiting_users [OF t])
  qed
qed







text \<open>Every handler keeps the primary key.\<close>

lemma primary_key_handle:
  assumes "primary_key (users w)"
  shows "primary_key (users (snd (handle admin tr now ev w)))"
proof (cases ev)
  case (StartCommand u mo)
  with assms show ?thesis
    by (simp add: start_users primary_key_add_or_update_user)
next
  case (JoinRequest u c)
  with assms show ?thesis
    by (simp add: join_users primary_key_add_or_update_user)
next
  case (ButtonPress i d)
  with assms show ?thesis
    by (simp add: buttons_users primary_key_clean_blocked)
next
  case (MessageUpdate eu mo)
  with assms show ?thesis
    using broadcast_users_cases [of admin tr eu mo w]
    by (auto simp: primary_key_mark_blocked)
qed

lemma set_add_or_update_user:
  "set (add_or_update_user now i un fn t) =
     insert \<lparr>user_id = i, username = un, first_name = fn, last_seen = now, is_blocked = False\<rparr>
       {r \<in> set t. user_id r \<noteq> i}"
  by (simp add: add_or_update_user_def set_insert_row)

lemma handle_new_blocked:
  assumes "r \<in> set (users (snd (handle admin tr now ev w)))" and "is_blocked r"
    and "r \<notin> set (users w)"
  shows "\<exists>m. ev = MessageUpdate (Some admin) (Some m) \<and> user_data w admin = Some True
           \<and> user_id r \<in> set (recipients_with tr m (Raised Forbidden) (users w))"
proof (cases ev)
  case (StartCommand u mo)
  with assms show ?thesis
    by (auto simp: start_users set_add_or_update_user)
next
  case (JoinRequest u c)
  with assms show ?thesis
    by (auto simp: join_users set_add_or_update_user split: if_splits)
next
  case (ButtonPress i d)
  with assms show ?thesis
    by (auto simp: buttons_users clean_blocked_def split: if_splits)
next
  case (MessageUpdate eu mo)
  from broadcast_users_cases [of admin tr eu mo w] assms(1,3) MessageUpdate
  obtain m where eu: "eu = Some admin" and mo: "mo = Some m"
    and t: "user_data w admin = Some True"
    and us: "users (snd (broadcast admin tr eu mo w)) =
        mark_blocked (recipients_with tr m (Raised Forbidden) (users w)) (users w)"
    by auto
  from assms(1) have "r \<in> set (mark_blocked (recipients_with tr m (Raised Forbidden) (users w)) (users w))"
    unfolding MessageUpdate by (simp add: us)
  then obtain r0 where r0: "r0 \<in> set (users w)"
    and r: "r = (if user_id r0 \<in> set (recipients_with tr m (Raised Forbidden) (users w))
                 then r0\<lparr>is_blocked := True\<rparr> else r0)"
    by (auto simp: mark_blocked_def)
  with assms(3) have "user_id r \<in> set (recipients_with tr m (Raised Forbidden) (users w))"
    by (auto split: if_splits)
  with t eu mo MessageUpdate show ?thesis by simp
qed

text \<open>
  C7, amended. A start command upserts the sender: whatever the table held and
  whatever the transport does, the table then holds exactly one row for the sender,
  with the sender's names and \<open>is_blocked\<close> false. A join request does the same for the
  requester when the approval call returns; when the approval call raises, the table
  is left as it was. And a blocked row that an update adds to the table comes from a
  broadcast pass: the update is a message of the administrator in the awaiting state,
  and the delivery to the user of that row raised \<open>Forbidden\<close>.
\<close>

theorem interactions_upsert_and_unblock:
  "filter (\<lambda>r. user_id r = tg_id u) (users (snd (handle admin tr now (StartCommand u mo) w))) =
     [\<lparr>user_id = tg_id u, username = tg_username u, first_name = tg_first_name u,
       last_seen = now, is_blocked = False\<rparr>]
   \<and> (tr (ApproveChatJoinRequest (chat_id c) (tg_id u)) = Sent \<longrightarrow>
        filter (\<lambda>r. user_id r = tg_id u) (users (snd (handle admin tr now (JoinRequest u c) w))) =
          [\<lparr>user_id = tg_id u, username = tg_username u, first_name = tg_first_name u,
            last_seen = now, is_blocked = False\<rparr>])
   \<and> (tr (ApproveChatJoinRequest (chat_id c) (tg_id u)) \<noteq> Sent \<longrightarrow>
        users (snd (handle admin tr now (JoinRequest u c) w)) = users w)
   \<and> (r \<in> set (users (snd (handle admin tr now ev w))) \<and> is_blocked r \<and> r \<notin> set (users w) \<longrightarrow>
        (\<exists>m. ev = MessageUpdate (Some admin) (Some m) \<and> user_data w admin = Some True
           \<and> user_id r \<in> set (recipients_with tr m (Raised Forbidden) (users w))))"
  using handle_new_blocked [of r admin tr now ev w]
  by (simp add: start_users join_users add_or_update_user_key)

theorem interactions_upsert_and_unblock_witness:
  "all_sent (ApproveChatJoinRequest (chat_id ex_chat) (tg_id (ex_user 3))) = Sent
   \<and> filter (\<lambda>r. user_id r = 3)
        (users (snd (handle ex_admin all_sent 7 (JoinRequest (ex_user 3) ex_chat) ex_idle))) =
       [\<lparr>user_id = 3, username = None, first_name = ''u'', last_seen = 7, is_blocked = False\<rparr>]
   \<and> filter (\<lambda>r. user_id r = 3)
        (users (snd (handle ex_admin all_fail 7 (StartCommand (ex_user 3) None) ex_idle))) =
       [\<lparr>user_id = 3, username = None, first_name = ''u'', last_seen = 7, is_blocked = False\<rparr>]
   \<and> all_fail (ApproveChatJoinRequest (chat_id ex_chat) (tg_id (ex_user 3))) \<noteq> Sent
   \<and> users (snd (handle ex_admin all_fail 7 (JoinRequest (ex_user 3) ex_chat) ex_idle)) = users ex_idle
   \<and> ex_row 2 True \<in> set (users (snd (handle ex_admin user2_blocked 0
        (MessageUpdate (Some ex_admin) (Some ex_hello)) ex_awaiting)))
   \<and> is_blocked (ex_row 2 True)
   \<and> ex_row 2 True \<notin> set (users ex_awaiting)
   \<and> user_data ex_awaiting ex_admin = Some True
   \<and> 2 \<in> set (recipients_with user2_blocked ex_hello (Raised Forbidden) (users ex_awaiting))"
proof -
  have h: "user_data ex_awaiting ex_admin = Some True"
    by (simp add: ex_awaiting_def ex_admin_def)
  have sends: "send_to ex_hello (broadcast_text ex_hello) u = SendMessage u ''Hello''" for u
    by (simp add: send_to_def broadcast_text_def ex_hello_def)
  have act: "get_active_users (users ex_awaiting) = [1, 2]"
    by (simp add: get_active_users_def ex_awaiting_def ex_table_def ex_row_def)
  have rc: "recipients_with user2_blocked ex_hello (Raised Forbidden) (users ex_awaiting) = [2]"
    by (simp add: recipients_with_def sends act user2_blocked_def)
  have new: "ex_row 2 True \<in> set (users (snd (handle ex_admin user2_blocked 0
      (MessageUpdate (Some ex_admin) (Some ex_hello)) ex_awaiting)))"
    by (simp add: broadcast_awaiting_users [OF h] rc mark_blocked_def)
       (simp add: ex_awaiting_def ex_table_def ex_row_def)
  have old: "ex_row 2 True \<notin> set (users ex_awaiting)"
    by (simp add: ex_awaiting_def ex_table_def ex_row_def)
  show ?thesis
    using h new old rc
      interactions_upsert_and_unblock [where u = "ex_user 3" and admin = ex_admin and tr = all_sent
        and now = 7 and c = ex_chat and w = ex_idle and r = "ex_row 2 True" and mo = None
        and ev = "MessageUpdate (Some ex_admin) (Some ex_hello)"]
      interactions_upsert_and_unblock [where u = "ex_user 3" and admin = ex_admin and tr = all_fail
        and now = 7 and c = ex_chat and w = ex_idle and r = "ex_row 2 True" and mo = None
        and ev = "MessageUpdate (Some ex_admin) (Some ex_hello)"]
      interactions_upsert_and_unblock [where u = "ex_user 3" and admin = ex_admin
        and tr = user2_blocked and now = 0 and c = ex_chat and w = ex_awaiting
        and r = "ex_row 2 True" and mo = None
        and ev = "MessageUpdate (Some ex_admin) (Some ex_hello)"]
    by (simp add: all_sent_def all_fail_def ex_user_def ex_row_def)
qed

text \<open>
  The claim as written fails: a join request whose approval fails leaves the row of
  the requester, here user 3, blocked.
\<close>

theorem join_request_not_upserted_counterexample:
  "users (snd (handle ex_admin all_fail 7 (JoinRequest (ex_user 3) ex_chat) ex_idle)) =
     [ex_row 1 False, ex_row 2 False, ex_row 3 True]"
  by (simp add: join_users all_fail_def ex_idle_def ex_table_def)

text \<open>
  C8. The panel workflow is the button handler and the message handler. A button
  press whose sender is not the administrator leaves the table and \<open>user_data\<close> as
  they were and makes no delivery: it purges nothing, starts no pass and does not
  enter the awaiting state. A message whose sender is not the administrator leaves
  the whole world as it was and the handler returns at once. Both hold in every
  world, so also after any button presses of the administrator.
\<close>

theorem foreign_sender_triggers_nothing:
  assumes "i \<noteq> admin"
  shows
    "(let w' = snd (handle admin tr now (ButtonPress i d) w)
      in users w' = users w
       \<and> user_data w' = user_data w
       \<and> List.map_filter delivery_to (calls w') = List.map_filter delivery_to (calls w))
     \<and> handle admin tr now (MessageUpdate (Some i) mo) w = (Returned, w)"
proof -
  have b: "snd (admin_buttons admin tr i d w) =
     w\<lparr>trace := trace w @ Awaited Answer
         # (if tr Answer = Sent then [Awaited (AnswerAlert NotAllowed)] else [])\<rparr>"
    by (rule buttons_foreign [OF assms])
  have m: "broadcast admin tr (Some i) mo w = (Returned, w)"
    using assms by (simp add: broadcast_idle)
  show ?thesis
    using m by (simp add: Let_def b calls_def map_filter_append)
qed

theorem foreign_sender_triggers_nothing_witness:
  "(2::int) \<noteq> ex_admin
   \<and> user_data ex_awaiting ex_admin = Some True
   \<and> handle ex_admin all_sent 0 (MessageUpdate (Some 2) (Some ex_hello)) ex_awaiting =
       (Returned, ex_awaiting)
   \<and> users (snd (handle ex_admin all_sent 0 (ButtonPress 2 ''clean_db'') ex_awaiting)) = ex_table
   \<and> user_data (snd (handle ex_admin all_sent 0 (ButtonPress 2 ''broadcast'') ex_idle)) =
       user_data ex_idle"
proof -
  have a: "(2::int) \<noteq> ex_admin"
    by (simp add: ex_admin_def)
  have h: "user_data ex_awaiting ex_admin = Some True"
    by (simp add: ex_awaiting_def ex_admin_def)
  have t: "users ex_awaiting = ex_table"
    by (simp add: ex_awaiting_def)
  show ?thesis
    using a h
      foreign_sender_triggers_nothing [OF a, of all_sent 0 "''clean_db''" ex_awaiting "Some ex_hello"]
      foreign_sender_triggers_nothing [OF a, of all_sent 0 "''broadcast''" ex_idle "Some ex_hello"]
    by (simp add: Let_def t)
qed


section \<open>The awaiting state\<close>






end
